theory Spec2Isabelle
  imports Main "HOL-Library.Word"
begin

section \<open>Strings of UTF-16 code units\<close>

text \<open>
  An ECMAScript string is a sequence of 16-bit code units; the regular expressions of the
  source have no \<^verbatim>\<open>u\<close> flag, so they work on code units too.  \<open>js\<close> embeds an ASCII
  literal.
\<close>

type_synonym unit16 = "16 word"
type_synonym jsstring = "unit16 list"

definition js :: "string \<Rightarrow> jsstring" where
  "js = map of_char"

text \<open>LineTerminator: LF, CR, LS, PS.\<close>

definition isLineTerminator :: "unit16 \<Rightarrow> bool" where
  "isLineTerminator c \<longleftrightarrow> c = 0x0A \<or> c = 0x0D \<or> c = 0x2028 \<or> c = 0x2029"

text \<open>The class \<^verbatim>\<open>\s\<close>: WhiteSpace (TAB, VT, FF, ZWNBSP and category Zs) and LineTerminator.\<close>

definition isWhiteSpace :: "unit16 \<Rightarrow> bool" where
  "isWhiteSpace c \<longleftrightarrow>
     c = 0x09 \<or> c = 0x0B \<or> c = 0x0C \<or> c = 0x20 \<or> c = 0xA0 \<or> c = 0xFEFF \<or>
     c = 0x1680 \<or> (0x2000 \<le> c \<and> c \<le> 0x200A) \<or> c = 0x202F \<or> c = 0x205F \<or> c = 0x3000 \<or>
     isLineTerminator c"

text \<open>The class \<^verbatim>\<open>[a-zA-Z0-9]\<close>.\<close>

definition isAlnum :: "unit16 \<Rightarrow> bool" where
  "isAlnum c \<longleftrightarrow>
     (0x61 \<le> c \<and> c \<le> 0x7A) \<or> (0x41 \<le> c \<and> c \<le> 0x5A) \<or> (0x30 \<le> c \<and> c \<le> 0x39)"

text \<open>\<^verbatim>\<open>String.prototype.startsWith\<close>, the pattern first.\<close>

fun starts_with :: "jsstring \<Rightarrow> jsstring \<Rightarrow> bool" where
  "starts_with [] s = True"
| "starts_with (p # ps) [] = False"
| "starts_with (p # ps) (c # cs) = (p = c \<and> starts_with ps cs)"

section \<open>Regular expressions as matchers\<close>

text \<open>
  A regular expression of the source is modelled by what it matches at one position: given
  the code unit before the position (\<open>None\<close> at the start of the input) and the input
  from the position on, the length of the match that the backtracking matcher finds there,
  or \<open>None\<close>.  \<^verbatim>\<open>String.prototype.replace\<close> tries the positions from left to right.
  Without the flag \<^verbatim>\<open>g\<close> only the first match is replaced; \<open>f\<close> computes the
  replacement from the matched text.
\<close>

type_synonym matcher = "unit16 option \<Rightarrow> jsstring \<Rightarrow> nat option"

fun replace_first ::
  "matcher \<Rightarrow> (jsstring \<Rightarrow> jsstring) \<Rightarrow> unit16 option \<Rightarrow> jsstring \<Rightarrow> jsstring" where
  "replace_first re f prev [] = (case re prev [] of Some n \<Rightarrow> f [] | None \<Rightarrow> [])"
| "replace_first re f prev (c # cs) =
     (case re prev (c # cs) of
        Some n \<Rightarrow> f (take n (c # cs)) @ drop n (c # cs)
      | None \<Rightarrow> c # replace_first re f (Some c) cs)"

text \<open>The assertion \<^verbatim>\<open>^\<close> under the flag \<^verbatim>\<open>m\<close>: the start of the input or of a line.\<close>

definition at_line_start :: "unit16 option \<Rightarrow> bool" where
  "at_line_start prev = (case prev of None \<Rightarrow> True | Some c \<Rightarrow> isLineTerminator c)"

section \<open>Code-fence stripping (content-generator-form.tsx, onSubmit)\<close>

text \<open>
  The length that \<^verbatim>\<open>```[a-zA-Z0-9]*\n?\<close> matches at the head of an input that starts
  with three backticks: both quantifiers are greedy and nothing after them can fail in the
  two expressions that start this way, so the tag is the longest run of letters and digits
  and a line feed after it is taken.
\<close>

definition fence_open_len :: "jsstring \<Rightarrow> nat" where
  "fence_open_len s =
     3 + length (takeWhile isAlnum (drop 3 s)) +
     (if starts_with [0x0A] (dropWhile isAlnum (drop 3 s)) then 1 else 0)"

text \<open>
  \<^verbatim>\<open>/^```[a-zA-Z0-9]*\n?[\s\S]*?$/m\<close>.  The lazy \<^verbatim>\<open>[\s\S]*?\<close> grows one code unit at a
  time until \<^verbatim>\<open>$\<close> holds, which under the flag \<^verbatim>\<open>m\<close> is the end of the input or the
  position before a line terminator: it stops at the first one.
\<close>

definition re_fenced :: matcher where
  "re_fenced prev s =
     (if at_line_start prev \<and> starts_with (js ''```'') s
      then Some (fence_open_len s +
                 length (takeWhile (\<lambda>c. \<not> isLineTerminator c) (drop (fence_open_len s) s)))
      else None)"

text \<open>\<^verbatim>\<open>/^```[a-zA-Z0-9]*\n?/\<close>, no flag: \<^verbatim>\<open>^\<close> is the start of the input only.\<close>

definition re_fence_open :: matcher where
  "re_fence_open prev s =
     (if prev = None \<and> starts_with (js ''```'') s then Some (fence_open_len s) else None)"

text \<open>
  \<^verbatim>\<open>/\n?```\s*$/\<close>, no flag: \<^verbatim>\<open>$\<close> is the end of the input, so after the backticks
  only white space may follow, and the match runs to the end.  Where the position holds a
  line feed the greedy \<^verbatim>\<open>\n?\<close> takes it; giving it back cannot help, since a line feed is
  not a backtick.
\<close>

definition re_fence_close :: matcher where
  "re_fence_close prev s =
     (if starts_with (js ''```'') (if starts_with [0x0A] s then tl s else s) \<and>
         list_all isWhiteSpace (drop 3 (if starts_with [0x0A] s then tl s else s))
      then Some (length s) else None)"

text \<open>
  The replacer of line 90:
  \<^verbatim>\<open>(match) => { if (match.startsWith("```")) { const withoutStart = match.replace(/^```[a-zA-Z0-9]*\n?/, "");
     return withoutStart.replace(/\n?```\s*$/, ""); } return match; }\<close>
\<close>

definition withoutStart :: "jsstring \<Rightarrow> jsstring" where
  "withoutStart match = replace_first re_fence_open (\<lambda>_. []) None match"

definition strip_fences :: "jsstring \<Rightarrow> jsstring" where
  "strip_fences match =
     (if starts_with (js ''```'') match
      then replace_first re_fence_close (\<lambda>_. []) None (withoutStart match)
      else match)"

text \<open>
  \<^verbatim>\<open>const unFenced = isBlog ? displayContent.replace(/^```[a-zA-Z0-9]*\n?[\s\S]*?$/m, ...) : displayContent\<close>
\<close>

definition unFenced :: "bool \<Rightarrow> jsstring \<Rightarrow> jsstring" where
  "unFenced isBlog displayContent =
     (if isBlog then replace_first re_fenced strip_fences None displayContent
      else displayContent)"

section \<open>JSON values and the built-ins applied to them\<close>

text \<open>
  What \<^verbatim>\<open>response.json()\<close> yields.  The members of an object are listed in the
  order in which the object enumerates them; a parsed object has no key twice.  The number
  type is a parameter: the engine's double-precision numbers are not modelled, and what the
  source needs from them comes with the \<open>engine\<close> below.  A value that may be
  \<^verbatim>\<open>undefined\<close> has type \<open>'n json option\<close>, with \<open>None\<close> for \<^verbatim>\<open>undefined\<close>.
\<close>

datatype 'n json =
    JNull
  | JBool bool
  | JNum 'n
  | JStr jsstring
  | JArr "'n json list"
  | JObj "(jsstring \<times> 'n json) list"

datatype builtin_error = TypeError | SyntaxError

datatype exn = Error jsstring | Builtin builtin_error

text \<open>
  The built-ins of the engine that the model takes as given: Number::toString, whether a
  number is finite, ToBoolean on numbers (false for zero and NaN), and the message text of
  the errors that the engine itself throws.
\<close>

record 'n engine =
  number_to_string :: "'n \<Rightarrow> jsstring"
  number_is_finite :: "'n \<Rightarrow> bool"
  number_to_boolean :: "'n \<Rightarrow> bool"
  error_message :: "builtin_error \<Rightarrow> jsstring"

datatype type_tag = T_undefined | T_object | T_boolean | T_number | T_string

text \<open>\<^verbatim>\<open>typeof\<close>: \<^verbatim>\<open>null\<close> and arrays are objects.\<close>

fun typeof :: "'n json option \<Rightarrow> type_tag" where
  "typeof None = T_undefined"
| "typeof (Some JNull) = T_object"
| "typeof (Some (JBool b)) = T_boolean"
| "typeof (Some (JNum n)) = T_number"
| "typeof (Some (JStr s)) = T_string"
| "typeof (Some (JArr xs)) = T_object"
| "typeof (Some (JObj kvs)) = T_object"

text \<open>ToBoolean, as \<^verbatim>\<open>&&\<close>, \<^verbatim>\<open>||\<close> and the conditional apply it.\<close>

fun to_boolean :: "'n engine \<Rightarrow> 'n json option \<Rightarrow> bool" where
  "to_boolean eng None = False"
| "to_boolean eng (Some JNull) = False"
| "to_boolean eng (Some (JBool b)) = b"
| "to_boolean eng (Some (JNum n)) = number_to_boolean eng n"
| "to_boolean eng (Some (JStr s)) = (s \<noteq> [])"
| "to_boolean eng (Some (JArr xs)) = True"
| "to_boolean eng (Some (JObj kvs)) = True"

text \<open>
  Reading a property that no built-in prototype defines (\<^verbatim>\<open>content\<close>, \<^verbatim>\<open>raw\<close>,
  \<^verbatim>\<open>detail\<close>, \<^verbatim>\<open>content_type\<close>): a TypeError on \<^verbatim>\<open>undefined\<close> and \<^verbatim>\<open>null\<close>, the
  member of an object, and \<^verbatim>\<open>undefined\<close> on every other value.
\<close>

fun get_prop :: "'n json option \<Rightarrow> jsstring \<Rightarrow> exn + 'n json option" where
  "get_prop None k = Inl (Builtin TypeError)"
| "get_prop (Some JNull) k = Inl (Builtin TypeError)"
| "get_prop (Some (JObj kvs)) k = Inr (map_of kvs k)"
| "get_prop (Some v) k = Inr None"

text \<open>\<^verbatim>\<open>Array.prototype.join\<close> on the strings of the elements.\<close>

fun join_with :: "jsstring \<Rightarrow> jsstring list \<Rightarrow> jsstring" where
  "join_with sep [] = []"
| "join_with sep [x] = x"
| "join_with sep (x # y # ys) = x @ sep @ join_with sep (y # ys)"

text \<open>The results of a run of conversions, up to the first that throws.\<close>

fun collect :: "(exn + 'a) list \<Rightarrow> exn + 'a list" where
  "collect [] = Inr []"
| "collect (Inl e # rs) = Inl e"
| "collect (Inr x # rs) = (case collect rs of Inl e \<Rightarrow> Inl e | Inr xs \<Rightarrow> Inr (x # xs))"

text \<open>
  ToString on a JSON value.  An array is its elements joined by commas, \<^verbatim>\<open>null\<close>
  elements as the empty string.  An object is converted by its method \<^verbatim>\<open>toString\<close>:
  that of \<^verbatim>\<open>Object.prototype\<close> gives \<^verbatim>\<open>[object Object]\<close>, but an own member
  \<^verbatim>\<open>toString\<close> of a parsed object hides it and is no function, and then the conversion
  to a primitive value throws a TypeError.
\<close>

fun to_string :: "'n engine \<Rightarrow> 'n json \<Rightarrow> exn + jsstring" where
  "to_string eng JNull = Inr (js ''null'')"
| "to_string eng (JBool b) = Inr (if b then js ''true'' else js ''false'')"
| "to_string eng (JNum n) = Inr (number_to_string eng n)"
| "to_string eng (JStr s) = Inr s"
| "to_string eng (JArr xs) =
     (case collect (map (\<lambda>x. if x = JNull then Inr [] else to_string eng x) xs) of
        Inl e \<Rightarrow> Inl e
      | Inr parts \<Rightarrow> Inr (join_with (js '','') parts))"
| "to_string eng (JObj kvs) =
     (case map_of kvs (js ''toString'') of
        Some v \<Rightarrow> Inl (Builtin TypeError)
      | None \<Rightarrow> Inr (js ''[object Object]''))"

text \<open>\<^verbatim>\<open>String(v)\<close>, also the conversion that \<^verbatim>\<open>new Error(v)\<close> applies to its message.\<close>

definition js_String :: "'n engine \<Rightarrow> 'n json option \<Rightarrow> exn + jsstring" where
  "js_String eng v = (case v of None \<Rightarrow> Inr (js ''undefined'') | Some x \<Rightarrow> to_string eng x)"

subsection \<open>\<^verbatim>\<open>JSON.stringify(value, null, 2)\<close>\<close>

definition hex_digit :: "unit16 \<Rightarrow> unit16" where
  "hex_digit d = (if d < 10 then 0x30 + d else 0x61 + (d - 10))"

definition unicode_escape :: "unit16 \<Rightarrow> jsstring" where
  "unicode_escape c =
     [0x5C, 0x75, hex_digit (drop_bit 12 c), hex_digit (take_bit 4 (drop_bit 8 c)),
      hex_digit (take_bit 4 (drop_bit 4 c)), hex_digit (take_bit 4 c)]"

definition isLeadSurrogate :: "unit16 \<Rightarrow> bool" where
  "isLeadSurrogate c \<longleftrightarrow> 0xD800 \<le> c \<and> c \<le> 0xDBFF"

definition isTrailSurrogate :: "unit16 \<Rightarrow> bool" where
  "isTrailSurrogate c \<longleftrightarrow> 0xDC00 \<le> c \<and> c \<le> 0xDFFF"

text \<open>One code point of QuoteJSONString that is a single code unit.\<close>

definition quote_unit :: "unit16 \<Rightarrow> jsstring" where
  "quote_unit c =
     (if c = 0x08 then [0x5C, 0x62]
      else if c = 0x09 then [0x5C, 0x74]
      else if c = 0x0A then [0x5C, 0x6E]
      else if c = 0x0C then [0x5C, 0x66]
      else if c = 0x0D then [0x5C, 0x72]
      else if c = 0x22 then [0x5C, 0x22]
      else if c = 0x5C then [0x5C, 0x5C]
      else if c < 0x20 \<or> isLeadSurrogate c \<or> isTrailSurrogate c then unicode_escape c
      else [c])"

text \<open>A surrogate pair is one code point and stays; a lone surrogate is escaped.\<close>

fun quote_units :: "jsstring \<Rightarrow> jsstring" where
  "quote_units [] = []"
| "quote_units [c] = quote_unit c"
| "quote_units (c # d # cs) =
     (if isLeadSurrogate c \<and> isTrailSurrogate d then c # d # quote_units cs
      else quote_unit c @ quote_units (d # cs))"

definition QuoteJSONString :: "jsstring \<Rightarrow> jsstring" where
  "QuoteJSONString s = [0x22] @ quote_units s @ [0x22]"

text \<open>SerializeJSONProperty with the gap of two spaces; \<open>ind\<close> is the current indent.\<close>

fun serialize :: "'n engine \<Rightarrow> jsstring \<Rightarrow> 'n json \<Rightarrow> jsstring" where
  "serialize eng ind JNull = js ''null''"
| "serialize eng ind (JBool b) = (if b then js ''true'' else js ''false'')"
| "serialize eng ind (JNum n) =
     (if number_is_finite eng n then number_to_string eng n else js ''null'')"
| "serialize eng ind (JStr s) = QuoteJSONString s"
| "serialize eng ind (JArr xs) =
     (if xs = [] then js ''[]''
      else js ''[\<newline>'' @ ind @ js ''  '' @
           join_with (js '',\<newline>'' @ ind @ js ''  '')
             (map (\<lambda>x. serialize eng (ind @ js ''  '') x) xs) @
           js ''\<newline>'' @ ind @ js '']'')"
| "serialize eng ind (JObj kvs) =
     (if kvs = [] then js ''{}''
      else js ''{\<newline>'' @ ind @ js ''  '' @
           join_with (js '',\<newline>'' @ ind @ js ''  '')
             (map (\<lambda>kv. QuoteJSONString (fst kv) @ js '': '' @
                         serialize eng (ind @ js ''  '') (snd kv)) kvs) @
           js ''\<newline>'' @ ind @ js ''}'')"

definition JSON_stringify :: "'n engine \<Rightarrow> 'n json \<Rightarrow> jsstring" where
  "JSON_stringify eng v = serialize eng [] v"

section \<open>The response normalizer (content-generator-form.tsx, lines 72 to 85)\<close>

text \<open>
  \<^verbatim>\<open>if (typeof resultData.content === 'object' && resultData.content !== null) {
    if (resultData.content.raw && typeof resultData.content.raw === 'string') {
      displayContent = resultData.content.raw;
    } else {
      displayContent = "```json\n" + JSON.stringify(resultData.content, null, 2) + "\n```";
    }
  } else if (typeof resultData.content === 'string') {
    displayContent = resultData.content;
  } else {
    displayContent = String(resultData.content);
  }\<close>
  The property \<^verbatim>\<open>raw\<close> is a data property, so its three reads give one value.
  \<open>displayContent\<close> is declared a string; a value of another type has no method
  \<^verbatim>\<open>replace\<close>, and the model makes the assignment of one a TypeError.
\<close>

definition displayContent :: "'n engine \<Rightarrow> 'n json option \<Rightarrow> exn + jsstring" where
  "displayContent eng content =
     (if typeof content = T_object \<and> content \<noteq> Some JNull then
        (case get_prop content (js ''raw'') of
           Inl e \<Rightarrow> Inl e
         | Inr raw \<Rightarrow>
             if to_boolean eng raw \<and> typeof raw = T_string then
               (case raw of Some (JStr s) \<Rightarrow> Inr s | _ \<Rightarrow> Inl (Builtin TypeError))
             else
               (case content of
                  Some v \<Rightarrow> Inr (js ''```json\<newline>'' @ JSON_stringify eng v @ js ''\<newline>```'')
                | None \<Rightarrow> Inl (Builtin TypeError)))
      else if typeof content = T_string then
        (case content of Some (JStr s) \<Rightarrow> Inr s | _ \<Rightarrow> Inl (Builtin TypeError))
      else js_String eng content)"

text \<open>
  The ordered rule as the specification words it, for comparison: an object with a string
  \<^verbatim>\<open>raw\<close> gives that string, any other object the fenced JSON text, a string itself,
  and every other value (numbers, booleans, \<^verbatim>\<open>null\<close>, arrays) its string representation.
\<close>

definition spec_displayContent :: "'n engine \<Rightarrow> 'n json option \<Rightarrow> exn + jsstring" where
  "spec_displayContent eng content =
     (case content of
        Some (JObj kvs) \<Rightarrow>
          (case map_of kvs (js ''raw'') of
             Some (JStr s) \<Rightarrow> Inr s
           | _ \<Rightarrow> Inr (js ''```json\<newline>'' @ JSON_stringify eng (JObj kvs) @ js ''\<newline>```''))
      | Some (JStr s) \<Rightarrow> Inr s
      | _ \<Rightarrow> js_String eng content)"

section \<open>The submission (content-generator-form.tsx, onSubmit)\<close>

text \<open>
  What the call of \<^verbatim>\<open>fetch\<close> comes to: the promise is rejected (a network error, a
  TypeError), or there is a response with its flag \<^verbatim>\<open>ok\<close> (status 200 to 299) and its
  body, \<open>None\<close> when the body is not JSON text and \<^verbatim>\<open>response.json()\<close> is rejected
  with a SyntaxError.
\<close>

datatype 'n fetched = Rejected | Response bool "'n json option"

definition response_json :: "'n json option \<Rightarrow> exn + 'n json" where
  "response_json body = (case body of None \<Rightarrow> Inl (Builtin SyntaxError) | Some v \<Rightarrow> Inr v)"

text \<open>
  The state \<^verbatim>\<open>result\<close> holds \<^verbatim>\<open>{...resultData, content: unFenced}\<close>: the members of
  the response that the view reads (\<^verbatim>\<open>content_type\<close>, \<^verbatim>\<open>image_url\<close>), and the display
  text as its \<^verbatim>\<open>content\<close>.
\<close>

record 'n generated_content =
  gc_content_type :: "'n json option"
  gc_image_url :: "'n json option"
  gc_content :: jsstring

record 'n view =
  loading :: bool
  result :: "'n generated_content option"

datatype toast = Toast_success jsstring | Toast_error jsstring

text \<open>An own member of the copy \<^verbatim>\<open>{...resultData}\<close>, for a name that is not an index.\<close>

fun member_of :: "'n json \<Rightarrow> jsstring \<Rightarrow> 'n json option" where
  "member_of (JObj kvs) k = map_of kvs k"
| "member_of v k = None"

text \<open>
  The body of the \<^verbatim>\<open>try\<close> block: either the exception that leaves it or the value given
  to \<^verbatim>\<open>setResult\<close>.  On a response that is not ok:
  \<^verbatim>\<open>const errorData = await response.json(); throw new Error(errorData.detail || "Failed to generate content.");\<close>
  A TypeError of the conversion of the message leaves the block in place of the new error.
\<close>

definition try_block :: "'n engine \<Rightarrow> 'n fetched \<Rightarrow> exn + 'n generated_content" where
  "try_block eng fetched =
     (case fetched of
        Rejected \<Rightarrow> Inl (Builtin TypeError)
      | Response ok body \<Rightarrow>
          if \<not> ok then
            (case response_json body of
               Inl e \<Rightarrow> Inl e
             | Inr errorData \<Rightarrow>
                 (case get_prop (Some errorData) (js ''detail'') of
                    Inl e \<Rightarrow> Inl e
                  | Inr detail \<Rightarrow>
                      (case js_String eng
                              (if to_boolean eng detail then detail
                               else Some (JStr (js ''Failed to generate content.''))) of
                         Inl e \<Rightarrow> Inl e
                       | Inr m \<Rightarrow> Inl (Error m))))
          else
            (case response_json body of
               Inl e \<Rightarrow> Inl e
             | Inr resultData \<Rightarrow>
                 (case get_prop (Some resultData) (js ''content'') of
                    Inl e \<Rightarrow> Inl e
                  | Inr c \<Rightarrow>
                      (case displayContent eng c of
                         Inl e \<Rightarrow> Inl e
                       | Inr d \<Rightarrow>
                           Inr \<lparr>gc_content_type = member_of resultData (js ''content_type''),
                                gc_image_url = member_of resultData (js ''image_url''),
                                gc_content =
                                  unFenced
                                    (member_of resultData (js ''content_type'') =
                                       Some (JStr (js ''blog''))) d\<rparr>))))"

text \<open>\<^verbatim>\<open>error.message\<close> of what was caught.\<close>

definition message :: "'n engine \<Rightarrow> exn \<Rightarrow> jsstring" where
  "message eng e = (case e of Error m \<Rightarrow> m | Builtin b \<Rightarrow> error_message eng b)"

text \<open>
  \<^verbatim>\<open>setLoading(true); setResult(null);\<close>, then the \<^verbatim>\<open>try\<close> block, its \<^verbatim>\<open>catch\<close>
  (\<^verbatim>\<open>toast.error(error.message || "An unexpected error occurred.")\<close>) and its
  \<^verbatim>\<open>finally\<close> (\<^verbatim>\<open>setLoading(false)\<close>).  The result is the view afterwards and the
  notification shown.
\<close>

definition onSubmit_start :: "'n view \<Rightarrow> 'n view" where
  "onSubmit_start v = v\<lparr>loading := True, result := None\<rparr>"

definition onSubmit :: "'n engine \<Rightarrow> 'n view \<Rightarrow> 'n fetched \<Rightarrow> 'n view \<times> toast" where
  "onSubmit eng v fetched =
     (case try_block eng fetched of
        Inr r \<Rightarrow>
          ((onSubmit_start v)\<lparr>result := Some r, loading := False\<rparr>,
           Toast_success (js ''Content generated successfully!''))
      | Inl error \<Rightarrow>
          ((onSubmit_start v)\<lparr>loading := False\<rparr>,
           Toast_error
             (if message eng error \<noteq> [] then message eng error
              else js ''An unexpected error occurred.'')))"

section \<open>The result card (result-card.tsx)\<close>

text \<open>The property \<^verbatim>\<open>imageUrl?: string | null\<close>.\<close>

datatype 'a nullable = Undefined | Null | Value 'a

text \<open>\<^verbatim>\<open>const imageSrc: string | undefined = imageUrl ?? undefined;\<close>\<close>

definition imageSrc :: "jsstring nullable \<Rightarrow> jsstring option" where
  "imageSrc imageUrl = (case imageUrl of Value u \<Rightarrow> Some u | _ \<Rightarrow> None)"

subsection \<open>Replacement under the flag \<^verbatim>\<open>g\<close>\<close>

text \<open>
  Every match is replaced, from left to right; the search goes on behind the match, and one
  code unit further on after an empty match.
\<close>

fun replace_all ::
  "matcher \<Rightarrow> (jsstring \<Rightarrow> jsstring) \<Rightarrow> unit16 option \<Rightarrow> jsstring \<Rightarrow> jsstring" where
  "replace_all re f prev [] = (case re prev [] of Some n \<Rightarrow> f [] | None \<Rightarrow> [])"
| "replace_all re f prev (c # cs) =
     (case re prev (c # cs) of
        None \<Rightarrow> c # replace_all re f (Some c) cs
      | Some 0 \<Rightarrow> f [] @ c # replace_all re f (Some c) cs
      | Some (Suc n) \<Rightarrow>
          f (take (Suc n) (c # cs)) @
          replace_all re f (Some (last (take (Suc n) (c # cs)))) (drop n cs))"

subsection \<open>\<^verbatim>\<open>escapeRegExp\<close>\<close>

text \<open>The class \<^verbatim>\<open>[.*+?^${}()|[\]\\]\<close> of the source.\<close>

definition isEscaped :: "unit16 \<Rightarrow> bool" where
  "isEscaped c \<longleftrightarrow> c \<in> set (js ''.*+?^${}()|[]'') \<or> c = 0x5C"

definition re_escaped :: matcher where
  "re_escaped prev s = (case s of [] \<Rightarrow> None | c # cs \<Rightarrow> if isEscaped c then Some 1 else None)"

text \<open>
  \<^verbatim>\<open>string.replace(/[.*+?^${}()|[\]\\]/g, '\\$&')\<close>: the replacement is a backslash and
  the matched text.
\<close>

definition escapeRegExp :: "jsstring \<Rightarrow> jsstring" where
  "escapeRegExp string = replace_all re_escaped (\<lambda>m. 0x5C # m) None string"

subsection \<open>The fragment of the pattern language that \<^verbatim>\<open>new RegExp\<close> is given\<close>

text \<open>
  SyntaxCharacter of the grammar: \<^verbatim>\<open>^ $ \ . * + ? ( ) [ ] { } |\<close>.  A pattern of the
  fragment is a sequence of pattern characters (any code unit that is no syntax character),
  of identity escapes of syntax characters, and of \<^verbatim>\<open>.*?\<close>.  \<open>parse_pattern\<close> is
  \<open>None\<close> on every other pattern, which \<^verbatim>\<open>new RegExp\<close> would reject or read as
  something else.
\<close>

definition isSyntaxCharacter :: "unit16 \<Rightarrow> bool" where
  "isSyntaxCharacter c \<longleftrightarrow> c \<in> set (js ''^$.*+?()[]{}|'') \<or> c = 0x5C"

datatype atom = Lit unit16 | LazyDotStar

fun parse_pattern :: "jsstring \<Rightarrow> atom list option" where
  "parse_pattern [] = Some []"
| "parse_pattern (c # cs) =
     (if c = 0x5C then
        (case cs of
           [] \<Rightarrow> None
         | d # ds \<Rightarrow> if isSyntaxCharacter d then map_option ((#) (Lit d)) (parse_pattern ds) else None)
      else if starts_with (js ''.*?'') (c # cs) then
        map_option ((#) LazyDotStar) (parse_pattern (drop 2 cs))
      else if isSyntaxCharacter c then None
      else map_option ((#) (Lit c)) (parse_pattern cs))"

text \<open>
  The backtracking matcher on the fragment, at one position: the length of the match.  The
  dot matches every code unit but a line terminator; the lazy star first tries what follows
  it and only then one more code unit.
\<close>

fun rmatch :: "atom list \<Rightarrow> jsstring \<Rightarrow> nat option" where
  "rmatch [] s = Some 0"
| "rmatch (Lit c # as) [] = None"
| "rmatch (Lit c # as) (d # ds) = (if c = d then map_option Suc (rmatch as ds) else None)"
| "rmatch (LazyDotStar # as) s =
     (case rmatch as s of
        Some n \<Rightarrow> Some n
      | None \<Rightarrow>
          (case s of
             [] \<Rightarrow> None
           | d # ds \<Rightarrow>
               if isLineTerminator d then None
               else map_option Suc (rmatch (LazyDotStar # as) ds)))"


subsection \<open>\<^verbatim>\<open>processedContent\<close>\<close>

text \<open>The template \<^verbatim>\<open>`!\\[.*?\\]\\(${escapeRegExp(imageSrc)}\\)`\<close>.\<close>

definition image_pattern :: "jsstring \<Rightarrow> jsstring" where
  "image_pattern src =
     js ''!'' @ [0x5C] @ js ''[.*?'' @ [0x5C] @ js '']'' @ [0x5C] @ js ''('' @
     escapeRegExp src @ [0x5C] @ js '')''"

text \<open>
  \<^verbatim>\<open>const processedContent = imageSrc
    ? content.replace(new RegExp(`!\\[.*?\\]\\(${escapeRegExp(imageSrc)}\\)`, 'g'), '')
    : content;\<close>
  \<open>None\<close> stands for a pattern outside the fragment.
\<close>

definition processedContent :: "jsstring nullable \<Rightarrow> jsstring \<Rightarrow> jsstring option" where
  "processedContent imageUrl content =
     (case imageSrc imageUrl of
        None \<Rightarrow> Some content
      | Some src \<Rightarrow>
          if src = [] then Some content
          else
            (case parse_pattern (image_pattern src) of
               None \<Rightarrow> None
             | Some atoms \<Rightarrow> Some (replace_all (\<lambda>prev. rmatch atoms) (\<lambda>m. []) None content)))"

subsection \<open>The removal of image directives as the specification words it\<close>

text \<open>
  For comparison with \<open>processedContent\<close>.  A directive of the image source \<open>u\<close> is
  \<^verbatim>\<open>![\<close>, an alternative text without closing bracket and line terminator, and
  \<^verbatim>\<open>](\<close> \<open>u\<close> \<^verbatim>\<open>)\<close>; \<open>directive_len\<close> is its length where the text starts with
  one.
\<close>

definition directive_close :: "jsstring \<Rightarrow> jsstring" where
  "directive_close u = js '']('' @ u @ js '')''"

definition directive_len :: "jsstring \<Rightarrow> jsstring \<Rightarrow> nat option" where
  "directive_len u s =
     (if starts_with (js ''!['') s \<and>
         starts_with (directive_close u)
           (dropWhile (\<lambda>x. x \<noteq> 0x5D \<and> \<not> isLineTerminator x) (drop 2 s))
      then Some (2 + length (takeWhile (\<lambda>x. x \<noteq> 0x5D \<and> \<not> isLineTerminator x) (drop 2 s)) +
                 length (directive_close u))
      else None)"

text \<open>Every directive goes, from left to right, and every other code unit stays.\<close>

fun spec_remove_directives :: "jsstring \<Rightarrow> jsstring \<Rightarrow> jsstring" where
  "spec_remove_directives u [] = []"
| "spec_remove_directives u (c # cs) =
     (case directive_len u (c # cs) of
        None \<Rightarrow> c # spec_remove_directives u cs
      | Some n \<Rightarrow> spec_remove_directives u (drop (n - 1) cs))"


fun close_on_line :: "jsstring \<Rightarrow> jsstring \<Rightarrow> bool" where
  "close_on_line cl [] = starts_with cl []"
| "close_on_line cl (d # ds) =
     (starts_with cl (d # ds) \<or> (\<not> isLineTerminator d \<and> close_on_line cl ds))"

text \<open>
  No \<^verbatim>\<open>![\<close> outside the directives starts something that is no directive and is yet
  followed on its line by \<^verbatim>\<open>](\<close> \<open>u\<close> \<^verbatim>\<open>)\<close>: a bracket of another directive or of
  plain text lies between.
\<close>

fun no_overrun :: "jsstring \<Rightarrow> jsstring \<Rightarrow> bool" where
  "no_overrun u [] = True"
| "no_overrun u (c # cs) =
     (case directive_len u (c # cs) of
        None \<Rightarrow>
          \<not> (starts_with (js ''!['') (c # cs) \<and> close_on_line (directive_close u) (drop 2 (c # cs))) \<and>
          no_overrun u cs
      | Some n \<Rightarrow> no_overrun u (drop (n - 1) cs))"

subsection \<open>The download name (\<^verbatim>\<open>handleDownloadImage\<close>)\<close>

text \<open>\<^verbatim>\<open>String.prototype.split\<close> with a separator of one code unit.\<close>

fun split_on :: "unit16 \<Rightarrow> jsstring \<Rightarrow> jsstring list" where
  "split_on sep [] = [] # []"
| "split_on sep (c # cs) =
     (if c = sep then [] # split_on sep cs
      else (case split_on sep cs of [] \<Rightarrow> [c] # [] | x # xs \<Rightarrow> (c # x) # xs))"

text \<open>
  \<^verbatim>\<open>const fileNameFromUrl = urlPath.split("/").filter(Boolean).pop();\<close>, where
  \<open>urlPath\<close> is the \<^verbatim>\<open>pathname\<close> of the parsed URL; \<^verbatim>\<open>pop\<close> is \<^verbatim>\<open>undefined\<close> on
  the empty array.
\<close>

definition fileNameFromUrl :: "jsstring \<Rightarrow> jsstring option" where
  "fileNameFromUrl urlPath =
     (let segments = filter (\<lambda>x. x \<noteq> []) (split_on 0x2F urlPath)
      in if segments = [] then None else Some (last segments))"

text \<open>\<^verbatim>\<open>const extensionFromType = blob.type.split("/")[1] || "png";\<close>\<close>

definition extensionFromType :: "jsstring \<Rightarrow> jsstring" where
  "extensionFromType blobType =
     (let parts = split_on 0x2F blobType
      in if 1 < length parts \<and> parts ! 1 \<noteq> [] then parts ! 1 else js ''png'')"

text \<open>\<^verbatim>\<open>link.download = fileNameFromUrl || `generated-image.${extensionFromType}`;\<close>\<close>

definition link_download :: "jsstring \<Rightarrow> jsstring \<Rightarrow> jsstring" where
  "link_download urlPath blobType =
     (case fileNameFromUrl urlPath of
        Some name \<Rightarrow>
          if name \<noteq> [] then name else js ''generated-image.'' @ extensionFromType blobType
      | None \<Rightarrow> js ''generated-image.'' @ extensionFromType blobType)"

text \<open>
  The subtype of a media type \<^verbatim>\<open>type/subtype;parameters\<close> as the specification means it:
  what stands between the first slash and the first semicolon.
\<close>

definition media_subtype :: "jsstring \<Rightarrow> jsstring" where
  "media_subtype t = takeWhile (\<lambda>c. c \<noteq> 0x3B) (drop 1 (dropWhile (\<lambda>c. c \<noteq> 0x2F) t))"

section \<open>An engine for closed examples\<close>

text \<open>
  Numbers that are integers below \<open>10\<^sup>2\<^sup>1\<close> in absolute value print in decimal, are
  finite, and are false exactly when zero.
\<close>

fun digits :: "nat \<Rightarrow> jsstring" where
  "digits n = (if n < 10 then [0x30 + of_nat n] else digits (n div 10) @ [0x30 + of_nat (n mod 10)])"

definition decimal :: "int \<Rightarrow> jsstring" where
  "decimal i = (if i < 0 then js ''-'' @ digits (nat (- i)) else digits (nat i))"

definition int_engine :: "int engine" where
  "int_engine =
     \<lparr>number_to_string = decimal,
      number_is_finite = (\<lambda>i. True),
      number_to_boolean = (\<lambda>i. i \<noteq> 0),
      error_message = (\<lambda>b. case b of TypeError \<Rightarrow> js ''TypeError'' | SyntaxError \<Rightarrow> js ''SyntaxError'')\<rparr>"

section \<open>Properties of the response normalizer\<close>

text \<open>
  C4.  The normalization of \<^verbatim>\<open>content\<close> is total: for every JSON value of the field, and
  for the absent field too, it throws nothing and yields one string.  The only read that
  can throw, \<^verbatim>\<open>content.raw\<close>, is guarded by the test for a non-null object, and
  \<^verbatim>\<open>String\<close> is applied to no object.
\<close>

theorem displayContent_total: "\<exists>s. displayContent eng c = Inr s"
proof (cases c)
  case None
  then show ?thesis by (simp add: displayContent_def js_String_def)
next
  case (Some v)
  show ?thesis
  proof (cases v)
    case (JObj kvs)
    show ?thesis
    proof (cases "map_of kvs (js ''raw'')")
      case None
      then show ?thesis using Some JObj by (simp add: displayContent_def)
    next
      case (Some raw)
      then show ?thesis using \<open>c = Some v\<close> JObj
        by (cases raw) (simp_all add: displayContent_def)
    qed
  qed (simp_all add: Some displayContent_def js_String_def)
qed

text \<open>
  C1, amended.  An object with a non-empty string \<^verbatim>\<open>raw\<close> gives that string; an object
  whose \<^verbatim>\<open>raw\<close> is absent or no string gives the pretty-printed JSON text of the whole
  object in a fence labelled json, and so does an array, which \<^verbatim>\<open>typeof\<close> calls an object
  too; a string gives itself; a number, a boolean, \<^verbatim>\<open>null\<close> and the absent field give
  their string representation.
\<close>

theorem displayContent_chain:
  "(map_of kvs (js ''raw'') = Some (JStr r) \<and> r \<noteq> [] \<longrightarrow>
      displayContent eng (Some (JObj kvs)) = Inr r) \<and>
   ((\<forall>r. map_of kvs (js ''raw'') \<noteq> Some (JStr r)) \<longrightarrow>
      displayContent eng (Some (JObj kvs)) =
        Inr (js ''```json\<newline>'' @ JSON_stringify eng (JObj kvs) @ js ''\<newline>```'')) \<and>
   displayContent eng (Some (JArr xs)) =
     Inr (js ''```json\<newline>'' @ JSON_stringify eng (JArr xs) @ js ''\<newline>```'') \<and>
   displayContent eng (Some (JStr s)) = Inr s \<and>
   displayContent eng (Some (JNum n)) = js_String eng (Some (JNum n)) \<and>
   js_String eng (Some (JNum n)) = Inr (number_to_string eng n) \<and>
   displayContent eng (Some (JBool b)) = js_String eng (Some (JBool b)) \<and>
   js_String eng (Some (JBool b)) = Inr (if b then js ''true'' else js ''false'') \<and>
   displayContent eng (Some JNull) = js_String eng (Some JNull) \<and>
   js_String eng (Some JNull) = Inr (js ''null'') \<and>
   displayContent eng None = js_String eng None \<and>
   js_String eng None = Inr (js ''undefined'')"
proof -
  have "displayContent eng (Some (JObj kvs)) =
          Inr (js ''```json\<newline>'' @ JSON_stringify eng (JObj kvs) @ js ''\<newline>```'')"
    if "\<forall>r. map_of kvs (js ''raw'') \<noteq> Some (JStr r)"
  proof (cases "map_of kvs (js ''raw'')")
    case None
    then show ?thesis by (simp add: displayContent_def)
  next
    case (Some raw)
    with that show ?thesis by (cases raw) (simp_all add: displayContent_def)
  qed
  then show ?thesis
    by (simp add: displayContent_def js_String_def)
qed

theorem displayContent_chain_witness:
  "displayContent int_engine (Some (JObj [(js ''raw'', JStr (js ''# Hi''))])) = Inr (js ''# Hi'') \<and>
   displayContent int_engine (Some (JObj [(js ''foo'', JNum 1)])) =
     Inr (js ''```json\<newline>{\<newline>  \"foo\": 1\<newline>}\<newline>```'') \<and>
   displayContent int_engine (Some (JNum 42)) = Inr (js ''42'')"
proof -
  have a: "map_of [(js ''raw'', JStr (js ''# Hi'') :: int json)] (js ''raw'') = Some (JStr (js ''# Hi'')) \<and> js ''# Hi'' \<noteq> []"
    by (simp add: js_def)
  have b: "\<forall>r. map_of [(js ''foo'', JNum 1 :: int json)] (js ''raw'') \<noteq> Some (JStr r)"
    by (simp add: js_def)
  have c: "JSON_stringify int_engine (JObj [(js ''foo'', JNum 1)]) = js ''{\<newline>  \"foo\": 1\<newline>}''"
    by code_simp
  have d: "number_to_string int_engine 42 = js ''42''"
    by code_simp
  have t1: "displayContent int_engine (Some (JObj [(js ''raw'', JStr (js ''# Hi''))])) = Inr (js ''# Hi'')"
    using a displayContent_chain [of "[(js ''raw'', JStr (js ''# Hi''))]" "js ''# Hi''" int_engine]
    by blast
  have t2: "displayContent int_engine (Some (JObj [(js ''foo'', JNum 1)])) =
      Inr (js ''```json\<newline>'' @ JSON_stringify int_engine (JObj [(js ''foo'', JNum 1)]) @ js ''\<newline>```'')"
    using b displayContent_chain [of "[(js ''foo'', JNum 1)]" _ int_engine]
    by blast
  have t3: "displayContent int_engine (Some (JNum 42)) = Inr (number_to_string int_engine 42)"
    using displayContent_chain [of _ _ int_engine _ _ 42]
    by simp
  show ?thesis
    unfolding t1 t2 t3 c d by (simp add: js_def)
qed

text \<open>
  C1 as stated fails on an array, which the rule sends to its string representation and the
  code to the fenced JSON text, and on an object whose \<^verbatim>\<open>raw\<close> is the empty string, which
  the rule returns and the code, testing \<^verbatim>\<open>raw\<close> for truth, replaces by the fenced JSON
  text.
\<close>

theorem displayContent_differs_from_rule:
  "displayContent int_engine (Some (JArr [JNum 1, JNum 2])) =
     Inr (js ''```json\<newline>[\<newline>  1,\<newline>  2\<newline>]\<newline>```'') \<and>
   spec_displayContent int_engine (Some (JArr [JNum 1, JNum 2])) = Inr (js ''1,2'') \<and>
   displayContent int_engine (Some (JArr [JNum 1, JNum 2])) \<noteq>
     spec_displayContent int_engine (Some (JArr [JNum 1, JNum 2])) \<and>
   displayContent int_engine (Some (JObj [(js ''raw'', JStr [])])) =
     Inr (js ''```json\<newline>{\<newline>  \"raw\": \"\"\<newline>}\<newline>```'') \<and>
   spec_displayContent int_engine (Some (JObj [(js ''raw'', JStr [])])) = Inr [] \<and>
   displayContent int_engine (Some (JObj [(js ''raw'', JStr [])])) \<noteq>
     spec_displayContent int_engine (Some (JObj [(js ''raw'', JStr [])]))"
  by code_simp

section \<open>Properties of the submission\<close>

lemma get_prop_member_of:
  "body \<noteq> JNull \<Longrightarrow> get_prop (Some body) k = Inr (member_of body k)"
  by (cases body) simp_all

lemma member_of_not_null: "member_of body k = Some v \<Longrightarrow> body \<noteq> JNull"
  by (cases body) simp_all

text \<open>
  C7, amended.  On a response that is not ok, a body with a non-empty string \<^verbatim>\<open>detail\<close>
  makes the error notification show exactly that string.  A body that is JSON and not
  \<^verbatim>\<open>null\<close>, with \<^verbatim>\<open>detail\<close> absent or the empty string, makes it show
  \<^verbatim>\<open>Failed to generate content.\<close>  On the body \<^verbatim>\<open>null\<close> the read of \<^verbatim>\<open>detail\<close>
  throws, and on a body that is not JSON \<^verbatim>\<open>response.json()\<close> does: the notification
  then shows the message of the engine's TypeError or SyntaxError, and
  \<^verbatim>\<open>An unexpected error occurred.\<close> where that message is empty.
\<close>

theorem onSubmit_error_detail:
  "(member_of body (js ''detail'') = Some (JStr d) \<and> d \<noteq> [] \<longrightarrow>
      snd (onSubmit eng v (Response False (Some body))) = Toast_error d) \<and>
   (body \<noteq> JNull \<and>
    (member_of body (js ''detail'') = None \<or> member_of body (js ''detail'') = Some (JStr [])) \<longrightarrow>
      snd (onSubmit eng v (Response False (Some body))) =
        Toast_error (js ''Failed to generate content.'')) \<and>
   snd (onSubmit eng v (Response False (Some JNull))) =
     Toast_error (if error_message eng TypeError \<noteq> [] then error_message eng TypeError
                  else js ''An unexpected error occurred.'') \<and>
   snd (onSubmit eng v (Response False None)) =
     Toast_error (if error_message eng SyntaxError \<noteq> [] then error_message eng SyntaxError
                  else js ''An unexpected error occurred.'')"
proof (intro conjI impI)
  assume h: "member_of body (js ''detail'') = Some (JStr d) \<and> d \<noteq> []"
  then have "body \<noteq> JNull"
    using member_of_not_null by blast
  then show "snd (onSubmit eng v (Response False (Some body))) = Toast_error d"
    using h
    by (simp add: onSubmit_def try_block_def response_json_def message_def js_String_def
        get_prop_member_of)
next
  assume h: "body \<noteq> JNull \<and>
    (member_of body (js ''detail'') = None \<or> member_of body (js ''detail'') = Some (JStr []))"
  have ne: "js ''Failed to generate content.'' \<noteq> []"
    by (simp add: js_def)
  from h show "snd (onSubmit eng v (Response False (Some body))) =
        Toast_error (js ''Failed to generate content.'')"
    using ne
    by (auto simp: onSubmit_def try_block_def response_json_def message_def js_String_def
        get_prop_member_of)
next
  show "snd (onSubmit eng v (Response False (Some JNull))) =
     Toast_error (if error_message eng TypeError \<noteq> [] then error_message eng TypeError
                  else js ''An unexpected error occurred.'')"
    by (simp add: onSubmit_def try_block_def response_json_def message_def)
next
  show "snd (onSubmit eng v (Response False None)) =
     Toast_error (if error_message eng SyntaxError \<noteq> [] then error_message eng SyntaxError
                  else js ''An unexpected error occurred.'')"
    by (simp add: onSubmit_def try_block_def response_json_def message_def)
qed

theorem onSubmit_error_detail_witness:
  "snd (onSubmit int_engine \<lparr>loading = False, result = None\<rparr>
          (Response False (Some (JObj [(js ''detail'', JStr (js ''quota exceeded''))])))) =
     Toast_error (js ''quota exceeded'') \<and>
   snd (onSubmit int_engine \<lparr>loading = False, result = None\<rparr> (Response False (Some (JObj [])))) =
     Toast_error (js ''Failed to generate content.'') \<and>
   snd (onSubmit int_engine \<lparr>loading = False, result = None\<rparr>
          (Response False (Some (JObj [(js ''detail'', JStr [])])))) =
     Toast_error (js ''Failed to generate content.'')"
proof -
  have a: "snd (onSubmit int_engine \<lparr>loading = False, result = None\<rparr>
          (Response False (Some (JObj [(js ''detail'', JStr (js ''quota exceeded''))])))) =
     Toast_error (js ''quota exceeded'')"
    using onSubmit_error_detail [of "JObj [(js ''detail'', JStr (js ''quota exceeded''))]"
        "js ''quota exceeded''" int_engine "\<lparr>loading = False, result = None\<rparr>"]
    by (simp add: js_def)
  have b: "snd (onSubmit int_engine \<lparr>loading = False, result = None\<rparr> (Response False (Some (JObj [])))) =
     Toast_error (js ''Failed to generate content.'')"
    using onSubmit_error_detail [of "JObj []" "[]" int_engine "\<lparr>loading = False, result = None\<rparr>"]
    by simp
  have c: "snd (onSubmit int_engine \<lparr>loading = False, result = None\<rparr>
          (Response False (Some (JObj [(js ''detail'', JStr [])])))) =
     Toast_error (js ''Failed to generate content.'')"
    using onSubmit_error_detail [of "JObj [(js ''detail'', JStr [])]" "[]" int_engine
        "\<lparr>loading = False, result = None\<rparr>"]
    by simp
  show ?thesis
    using a b c by simp
qed

text \<open>
  C7 as stated fails where \<^verbatim>\<open>detail\<close> is the empty string: \<^verbatim>\<open>errorData.detail || ...\<close>
  takes the generic message then.
\<close>

theorem onSubmit_empty_detail:
  "snd (onSubmit int_engine \<lparr>loading = False, result = None\<rparr>
          (Response False (Some (JObj [(js ''detail'', JStr [])])))) =
     Toast_error (js ''Failed to generate content.'') \<and>
   snd (onSubmit int_engine \<lparr>loading = False, result = None\<rparr>
          (Response False (Some (JObj [(js ''detail'', JStr [])])))) \<noteq> Toast_error []"
  by code_simp

text \<open>
  C9.  Every submission first sets the result to \<^verbatim>\<open>null\<close>, and a submission that fails,
  by a network error or by a response that is not ok, leaves it so, whatever result the view
  held before.
\<close>

theorem onSubmit_failure_clears_result:
  "result (onSubmit_start v) = None \<and>
   result (fst (onSubmit eng v Rejected)) = None \<and>
   result (fst (onSubmit eng v (Response False body))) = None"
  by (auto simp: onSubmit_def onSubmit_start_def try_block_def split: sum.splits)

section \<open>Properties of the code-fence stripping\<close>

text \<open>
  C2.  For the content type blog, a text that is one fenced block from its first line to its
  last is to lose both fence lines; the text
  \<^verbatim>\<open>```markdown\n# Title\nBody\n```\<close> is to become \<^verbatim>\<open># Title\nBody\<close>.  The code
  replaces the match of line 90, which ends with the first line behind the opening fence, so
  the replacer never sees the closing fence: the opening fence line goes and the closing
  fence stays.
\<close>

theorem unFenced_keeps_closing_fence:
  "unFenced True (js ''```markdown\<newline># Title\<newline>Body\<newline>```'') =
     js ''# Title\<newline>Body\<newline>```'' \<and>
   unFenced True (js ''```markdown\<newline># Title\<newline>Body\<newline>```'') \<noteq>
     js ''# Title\<newline>Body''"
  by code_simp

text \<open>
  C3.  For the content type blog, a text that is not one fenced block bounded by its first
  and its last line is to come back unchanged.  The code removes the opening fence line of
  a block that is never closed, and of a block in the middle of the text.
\<close>

theorem unFenced_strips_unmatched_fence:
  "unFenced True (js ''```js\<newline>code'') = js ''code'' \<and>
   unFenced True (js ''Intro\<newline>```js\<newline>code\<newline>```\<newline>end'') =
     js ''Intro\<newline>code\<newline>```\<newline>end''"
  by code_simp

text \<open>
  C6.  Fence stripping for the content type blog is to be idempotent.  In the code it is
  not, by the defect of C2 and C3: the first pass over a fenced block leaves the closing
  fence behind, and the second pass takes that fence, now unmatched, away.
\<close>

theorem unFenced_not_idempotent:
  "unFenced True (js ''```\<newline>b\<newline>```'') = js ''b\<newline>```'' \<and>
   unFenced True (unFenced True (js ''```\<newline>b\<newline>```'')) = js ''b\<newline>'' \<and>
   unFenced True (unFenced True (js ''```\<newline>b\<newline>```'')) \<noteq>
     unFenced True (js ''```\<newline>b\<newline>```'')"
  by code_simp

section \<open>Properties of the result card\<close>












lemma rmatch_literal_only:
  "rmatch (map Lit cl) t = (if starts_with cl t then Some (length cl) else None)"
proof (induction cl arbitrary: t)
  case Nil
  then show ?case by simp
next
  case (Cons c cl)
  then show ?case by (cases t) auto
qed



lemma rmatch_lazy_None:
  "\<not> close_on_line cl t \<Longrightarrow> rmatch (LazyDotStar # map Lit cl) t = None"
proof (induction t)
  case Nil
  then show ?case by (simp add: rmatch_literal_only)
next
  case (Cons d ds)
  then show ?case
    by (auto simp add: rmatch_literal_only rmatch.simps(4) [of "map Lit cl" "d # ds"]
        simp del: rmatch.simps(4))
qed

lemma rmatch_lazy_Some:
  "rmatch (LazyDotStar # map Lit cl) t = Some n \<Longrightarrow> close_on_line cl t"
  using rmatch_lazy_None by fastforce












text \<open>
  C10.  Without an image URL (\<^verbatim>\<open>undefined\<close> or \<^verbatim>\<open>null\<close>) no image markup is removed:
  the text shown is the content, whatever it contains.
\<close>

theorem processedContent_without_image:
  "processedContent Undefined content = Some content \<and> processedContent Null content = Some content"
  by (simp add: processedContent_def imageSrc_def)




text \<open>
  The case that the amended C5 leaves out: the lazy \<^verbatim>\<open>.*?\<close> runs from the \<^verbatim>\<open>![\<close> of a
  directive with another URL over its closing bracket to the next \<^verbatim>\<open>](URL)\<close>, and text
  that is no directive of the image goes too.
\<close>

lemma processedContent_overrun:
  "processedContent (Value (js ''u'')) (js ''![a](v) ![b](u)'') = Some [] \<and>
   \<not> no_overrun (js ''u'') (js ''![a](v) ![b](u)'') \<and>
   spec_remove_directives (js ''u'') (js ''![a](v) ![b](u)'') = js ''![a](v) ''"
  by code_simp

section \<open>Properties of the download name\<close>

lemma split_on_not_Nil: "split_on sep s \<noteq> []"
  by (induction s) (auto split: list.splits)

lemma split_on_append:
  "split_on sep (xs @ sep # ys) = split_on sep xs @ split_on sep ys"
proof (induction xs)
  case Nil
  then show ?case by simp
next
  case (Cons c xs)
  then show ?case
    using split_on_not_Nil [of sep xs]
    by (cases "split_on sep xs") auto
qed

lemma split_on_no_sep: "sep \<notin> set s \<Longrightarrow> split_on sep s = [s]"
  by (induction s) auto

lemma split_on_replicate: "split_on sep (replicate n sep) = replicate (Suc n) []"
  by (induction n) auto

lemma only_sep: "set xs \<subseteq> {a} \<Longrightarrow> xs = replicate (length xs) a"
  by (induction xs) auto

lemma segments_tail:
  assumes "sep \<notin> set seg" and "set trail \<subseteq> {sep}"
  shows "filter (\<lambda>x. x \<noteq> []) (split_on sep (seg @ trail)) = filter (\<lambda>x. x \<noteq> []) [seg]"
proof (cases trail)
  case Nil
  then show ?thesis using assms by (simp add: split_on_no_sep)
next
  case (Cons c cs)
  then have c: "c = sep" and cs: "cs = replicate (length cs) sep"
    using assms(2) only_sep [of cs sep] by auto
  have "split_on sep (seg @ sep # replicate (length cs) sep) =
          [seg] @ replicate (Suc (length cs)) []"
    by (simp only: split_on_append split_on_no_sep [OF assms(1)] split_on_replicate)
  then show ?thesis
    using Cons c cs by simp
qed

lemma fileNameFromUrl_last_segment:
  assumes "seg \<noteq> []" and "0x2F \<notin> set seg" and "set trail \<subseteq> {0x2F}"
    and "pre = [] \<or> last pre = 0x2F"
  shows "fileNameFromUrl (pre @ seg @ trail) = Some seg"
proof (cases "pre = []")
  case True
  then show ?thesis
    using assms(1) segments_tail [OF assms(2,3)] by (simp add: fileNameFromUrl_def)
next
  case False
  then obtain p where pre: "pre = p @ [0x2F]"
    using assms(4) by (metis append_butlast_last_id)
  have "split_on 0x2F (p @ 0x2F # (seg @ trail)) = split_on 0x2F p @ split_on 0x2F (seg @ trail)"
    by (rule split_on_append)
  then show ?thesis
    using assms(1) segments_tail [OF assms(2,3)] by (simp add: fileNameFromUrl_def pre)
qed

lemma fileNameFromUrl_no_segment:
  assumes "set path \<subseteq> {0x2F}"
  shows "fileNameFromUrl path = None"
proof -
  have "path = replicate (length path) 0x2F"
    using assms by (rule only_sep)
  then have "split_on 0x2F path = replicate (Suc (length path)) []"
    by (metis split_on_replicate)
  then show ?thesis
    by (simp add: fileNameFromUrl_def)
qed

lemma extensionFromType_subtype:
  assumes "0x2F \<notin> set major" and "0x2F \<notin> set sub"
  shows "extensionFromType (major @ [0x2F] @ sub) = (if sub \<noteq> [] then sub else js ''png'')"
proof -
  have "split_on 0x2F (major @ 0x2F # sub) = [major, sub]"
    by (simp only: split_on_append split_on_no_sep [OF assms(1)] split_on_no_sep [OF assms(2)]) simp
  then show ?thesis
    by (simp add: extensionFromType_def)
qed

lemma extensionFromType_no_slash: "0x2F \<notin> set t \<Longrightarrow> extensionFromType t = js ''png''"
  by (simp add: extensionFromType_def split_on_no_sep)

lemma extension_is_media_subtype:
  assumes "0x2F \<notin> set major" and "0x2F \<notin> set sub" and "0x3B \<notin> set sub" and "sub \<noteq> []"
  shows "extensionFromType (major @ [0x2F] @ sub) = media_subtype (major @ [0x2F] @ sub)"
proof -
  have all: "\<And>x. x \<in> set major \<Longrightarrow> x \<noteq> 0x2F"
    using assms(1) by auto
  have "dropWhile (\<lambda>c. c \<noteq> 0x2F) (major @ 0x2F # sub) = 0x2F # sub"
    by (simp add: dropWhile_append2 [OF all])
  moreover have "takeWhile (\<lambda>c. c \<noteq> 0x3B) sub = sub"
    using assms(3) by (simp add: takeWhile_eq_all_conv) blast
  ultimately have "media_subtype (major @ [0x2F] @ sub) = sub"
    by (simp add: media_subtype_def)
  then show ?thesis
    using extensionFromType_subtype [OF assms(1,2)] assms(4) by simp
qed

text \<open>
  C8, amended.  The download name is the last non-empty segment of the path of the URL: the
  segment behind the last slash that something other than slashes follows.  A path of
  slashes only has no such segment, and the name is \<^verbatim>\<open>generated-image.\<close> with what
  stands behind the slash of the media type string of the fetched content, which is the
  media subtype where the string has no parameters, or with \<^verbatim>\<open>png\<close> where the string has
  no slash or nothing behind it.  The path is the \<^verbatim>\<open>pathname\<close> that the parser of URLs
  gives, which for \<^verbatim>\<open>https://x.com/gen/abc.jpg\<close> is \<^verbatim>\<open>/gen/abc.jpg\<close>.
\<close>

theorem link_download_name:
  "(seg \<noteq> [] \<and> 0x2F \<notin> set seg \<and> set trail \<subseteq> {0x2F} \<and> (pre = [] \<or> last pre = 0x2F) \<longrightarrow>
      link_download (pre @ seg @ trail) blobType = seg) \<and>
   (set path \<subseteq> {0x2F} \<longrightarrow>
      link_download path blobType = js ''generated-image.'' @ extensionFromType blobType) \<and>
   (0x2F \<notin> set major \<and> 0x2F \<notin> set sub \<and> sub \<noteq> [] \<longrightarrow>
      extensionFromType (major @ [0x2F] @ sub) = sub) \<and>
   (0x2F \<notin> set major \<and> 0x2F \<notin> set sub \<and> 0x3B \<notin> set sub \<and> sub \<noteq> [] \<longrightarrow>
      extensionFromType (major @ [0x2F] @ sub) = media_subtype (major @ [0x2F] @ sub)) \<and>
   (0x2F \<notin> set major \<longrightarrow>
      extensionFromType major = js ''png'' \<and> extensionFromType (major @ [0x2F]) = js ''png'')"
  using fileNameFromUrl_last_segment [of seg trail pre] fileNameFromUrl_no_segment [of path]
    extensionFromType_subtype [of major sub] extensionFromType_subtype [of major "[]"]
    extensionFromType_no_slash [of major] extension_is_media_subtype [of major sub]
  by (simp add: link_download_def)

theorem link_download_name_witness:
  "link_download (js ''/gen/abc.jpg'') (js ''image/jpeg'') = js ''abc.jpg'' \<and>
   link_download (js ''/'') (js ''image/webp'') = js ''generated-image.webp'' \<and>
   extensionFromType (js ''image/webp'') = media_subtype (js ''image/webp'') \<and>
   link_download (js ''/'') [] = js ''generated-image.png''"
proof -
  have a: "link_download (js ''/gen/'' @ js ''abc.jpg'' @ []) (js ''image/jpeg'') = js ''abc.jpg''"
    using link_download_name [of "js ''abc.jpg''" "[]" "js ''/gen/''" "js ''image/jpeg''" "[]" "[]" "[]"]
    by (simp add: js_def)
  have b: "link_download (js ''/'') (js ''image/webp'') =
             js ''generated-image.'' @ extensionFromType (js ''image'' @ [0x2F] @ js ''webp'')"
    using link_download_name [of "[]" "[]" "[]" "js ''image/webp''" "js ''/''" "[]" "[]"]
    by (simp add: js_def)
  have c: "extensionFromType (js ''image'' @ [0x2F] @ js ''webp'') = js ''webp''"
    using link_download_name [of "[]" "[]" "[]" "[]" "[]" "js ''image''" "js ''webp''"]
    by (simp add: js_def)
  have c': "extensionFromType (js ''image'' @ [0x2F] @ js ''webp'') =
              media_subtype (js ''image'' @ [0x2F] @ js ''webp'')"
  proof -
    have h: "0x2F \<notin> set (js ''image'') \<and> 0x2F \<notin> set (js ''webp'') \<and>
             0x3B \<notin> set (js ''webp'') \<and> js ''webp'' \<noteq> []"
      by (simp add: js_def)
    show ?thesis
      using h link_download_name [of "[]" "[]" "[]" "[]" "[]" "js ''image''" "js ''webp''"]
      by blast
  qed
  have d: "link_download (js ''/'') [] = js ''generated-image.'' @ extensionFromType []"
    using link_download_name [of "[]" "[]" "[]" "[]" "js ''/''" "[]" "[]"]
    by (simp add: js_def)
  have e: "extensionFromType [] = js ''png''"
    using link_download_name [of "[]" "[]" "[]" "[]" "[]" "[]" "[]"]
    by simp
  show ?thesis
    using a b c c' d e by (simp add: js_def)
qed

text \<open>
  C8 as stated fails on a media type with parameters: the name takes them along with the
  subtype.
\<close>

theorem link_download_keeps_parameters:
  "link_download (js ''/'') (js ''image/svg+xml;charset=utf-8'') =
     js ''generated-image.svg+xml;charset=utf-8'' \<and>
   media_subtype (js ''image/svg+xml;charset=utf-8'') = js ''svg+xml'' \<and>
   link_download (js ''/'') (js ''image/svg+xml;charset=utf-8'') \<noteq>
     js ''generated-image.'' @ media_subtype (js ''image/svg+xml;charset=utf-8'')"
  by code_simp

end
